theory Spec2Isabelle
  imports Main "HOL-Library.Word"
begin

section \<open>Values of a request\<close>

text \<open>
  A field of a parsed JSON body, or what selecting a missing field gives
  (\<open>JUndefined\<close>). Strings are lists of code units below 256, so the accented
  letters of the messages are one character each (\<open>CHR 0xE1\<close> is a-acute,
  \<open>CHR 0xED\<close> is i-acute). Numbers are the integers from \<open>- 2 ^ 53\<close> to
  \<open>2 ^ 53 - 1\<close>, as signed words of 54 bits: a double holds each of them exactly, and
  JavaScript prints it digit by digit. Arrays, nested objects and other numbers are
  not represented.
\<close>

datatype jsval = JUndefined | JNull | JBool bool | JNum "54 word" | JStr string

text \<open>
  A request: the \<open>Origin\<close> header if there is one, the verb (one of the five that the
  router declares), the segments of the path (for the server the whole path, for the
  router the part below its mount point), the path parameters that the matching route
  sets, and the body as \<open>express.json()\<close> has parsed it (an object, read by key).
\<close>

datatype http_method = GET | POST | PUT | PATCH | DELETE

record request =
  origin :: "string option"
  http_method :: http_method
  http_path :: "string list"
  params :: "string \<rightharpoonup> string"
  body :: "string \<rightharpoonup> jsval"

subsection \<open>Digits\<close>

definition digit_of :: "char \<Rightarrow> nat option" where
  "digit_of = map_of
     [(CHR ''0'', 0), (CHR ''1'', 1), (CHR ''2'', 2), (CHR ''3'', 3), (CHR ''4'', 4),
      (CHR ''5'', 5), (CHR ''6'', 6), (CHR ''7'', 7), (CHR ''8'', 8), (CHR ''9'', 9),
      (CHR ''a'', 10), (CHR ''b'', 11), (CHR ''c'', 12), (CHR ''d'', 13), (CHR ''e'', 14),
      (CHR ''f'', 15), (CHR ''A'', 10), (CHR ''B'', 11), (CHR ''C'', 12), (CHR ''D'', 13),
      (CHR ''E'', 14), (CHR ''F'', 15)]"

definition digit_in :: "nat \<Rightarrow> char \<Rightarrow> bool" where
  "digit_in b c = (case digit_of c of None \<Rightarrow> False | Some d \<Rightarrow> d < b)"

abbreviation is_digit :: "char \<Rightarrow> bool" where
  "is_digit \<equiv> digit_in 10"

definition digits_val :: "nat \<Rightarrow> string \<Rightarrow> nat" where
  "digits_val b ds = foldl (\<lambda>a c. a * b + (case digit_of c of None \<Rightarrow> 0 | Some d \<Rightarrow> d)) 0 ds"

definition all_digits :: "string \<Rightarrow> bool" where
  "all_digits ds = (ds \<noteq> [] \<and> list_all is_digit ds)"

subsection \<open>String(number)\<close>

fun digits_of :: "nat \<Rightarrow> string" where
  "digits_of n =
     (if n < 10 then [''0123456789'' ! n]
      else digits_of (n div 10) @ [''0123456789'' ! (n mod 10)])"

declare digits_of.simps [simp del]

text \<open>\<open>String(n)\<close> for such an integer: a minus sign if it is negative, and its digits.\<close>

definition number_to_string :: "54 word \<Rightarrow> string" where
  "number_to_string w =
     (let n = sint w
      in (if n < 0 then ''-'' else []) @ digits_of (nat \<bar>n\<bar>))"

subsection \<open>Number(string) and the comparison with zero\<close>

text \<open>
  The numeric value of a JavaScript value before it is rounded to a double:
  not a number, an infinity (\<open>True\<close> for the negative one), or the exact decimal
  \<open>m * 10 ^ e\<close>.
\<close>

datatype jsnumber = NaN | Infinite bool | Finite int int

definition js_whitespace :: "char \<Rightarrow> bool" where
  "js_whitespace c =
     (c \<in> set [CHR 0x09, CHR 0x0A, CHR 0x0B, CHR 0x0C, CHR 0x0D, CHR 0x20, CHR 0xA0])"

definition trim :: "string \<Rightarrow> string" where
  "trim s = rev (dropWhile js_whitespace (rev (dropWhile js_whitespace s)))"

definition signed_integer :: "string \<Rightarrow> int option" where
  "signed_integer t =
     (case t of
        [] \<Rightarrow> None
      | c # u \<Rightarrow>
          if c = CHR ''+'' then (if all_digits u then Some (int (digits_val 10 u)) else None)
          else if c = CHR ''-'' then (if all_digits u then Some (- int (digits_val 10 u)) else None)
          else if all_digits t then Some (int (digits_val 10 t)) else None)"

definition exponent_part :: "string \<Rightarrow> int option" where
  "exponent_part r =
     (case r of
        [] \<Rightarrow> Some 0
      | c # t \<Rightarrow> if c = CHR ''e'' \<or> c = CHR ''E'' then signed_integer t else None)"

definition unsigned_decimal :: "string \<Rightarrow> jsnumber" where
  "unsigned_decimal t =
     (if t = ''Infinity'' then Infinite False
      else
        let ip = takeWhile is_digit t;
            r = dropWhile is_digit t;
            fp = (case r of [] \<Rightarrow> []
                  | c # u \<Rightarrow> if c = CHR ''.'' then takeWhile is_digit u else []);
            r' = (case r of [] \<Rightarrow> []
                  | c # u \<Rightarrow> if c = CHR ''.'' then dropWhile is_digit u else r)
        in if ip = [] \<and> fp = [] then NaN
           else (case exponent_part r' of
                   None \<Rightarrow> NaN
                 | Some x \<Rightarrow> Finite (int (digits_val 10 (ip @ fp))) (x - int (length fp))))"

definition negate :: "jsnumber \<Rightarrow> jsnumber" where
  "negate x = (case x of NaN \<Rightarrow> NaN | Infinite s \<Rightarrow> Infinite (\<not> s) | Finite m e \<Rightarrow> Finite (- m) e)"

definition str_decimal :: "string \<Rightarrow> jsnumber" where
  "str_decimal t =
     (case t of
        [] \<Rightarrow> NaN
      | c # u \<Rightarrow>
          if c = CHR ''+'' then unsigned_decimal u
          else if c = CHR ''-'' then negate (unsigned_decimal u)
          else unsigned_decimal t)"

definition radix_literal :: "string \<Rightarrow> nat option" where
  "radix_literal t =
     (case t of
        z # c # ds \<Rightarrow>
          (let b = (if c = CHR ''x'' \<or> c = CHR ''X'' then 16
                    else if c = CHR ''o'' \<or> c = CHR ''O'' then 8
                    else if c = CHR ''b'' \<or> c = CHR ''B'' then 2 else 0)
           in if z = CHR ''0'' \<and> b \<noteq> 0 \<and> ds \<noteq> [] \<and> list_all (digit_in b) ds
              then Some (digits_val b ds) else None)
      | _ \<Rightarrow> None)"

definition StringToNumber :: "string \<Rightarrow> jsnumber" where
  "StringToNumber s =
     (let t = trim s
      in if t = [] then Finite 0 0
         else (case radix_literal t of
                 Some n \<Rightarrow> Finite (int n) 0
               | None \<Rightarrow> str_decimal t))"

fun ToNumber :: "jsval \<Rightarrow> jsnumber" where
  "ToNumber JUndefined = NaN"
| "ToNumber JNull = Finite 0 0"
| "ToNumber (JBool b) = Finite (if b then 1 else 0) 0"
| "ToNumber (JNum n) = Finite (sint n) 0"
| "ToNumber (JStr s) = StringToNumber s"

text \<open>
  \<open>x > 0\<close> on the double nearest to the value: a positive decimal below or at
  \<open>2 ^ -1075\<close> rounds to zero.
\<close>

fun positive :: "jsnumber \<Rightarrow> bool" where
  "positive NaN = False"
| "positive (Infinite s) = (\<not> s)"
| "positive (Finite m e) =
     (0 < m \<and> (0 \<le> e \<or> 10 ^ nat (- e) < m * 2 ^ 1075))"

definition js_gt_zero :: "jsval \<Rightarrow> bool" where
  "js_gt_zero v = positive (ToNumber v)"

section \<open>The validation rules of express-validator\<close>

text \<open>
  The rules that \<open>router.ts\<close> attaches are those of the libraries express-validator
  and validator.js. A standard rule (\<open>isInt\<close>, \<open>isNumeric\<close>, \<open>notEmpty\<close>, \<open>isBoolean\<close>)
  tests the string form of the field: the empty string for a missing field and for
  \<open>null\<close>, \<open>String(value)\<close> for a boolean, a number or a string. A custom rule is given
  the value itself.
\<close>

fun toString :: "jsval \<Rightarrow> string" where
  "toString JUndefined = []"
| "toString JNull = []"
| "toString (JBool b) = (if b then ''true'' else ''false'')"
| "toString (JNum n) = number_to_string n"
| "toString (JStr s) = s"

definition strip_sign :: "string \<Rightarrow> string" where
  "strip_sign s =
     (case s of [] \<Rightarrow> [] | c # r \<Rightarrow> if c = CHR ''+'' \<or> c = CHR ''-'' then r else s)"

text \<open>\<open>isInt\<close> with no options: an optional sign and one or more digits.\<close>

definition isInt :: "string \<Rightarrow> bool" where
  "isInt s = all_digits (strip_sign s)"

text \<open>
  \<open>isNumeric\<close> with no options: an optional sign, then one or more digits, or any
  digits, a point and one or more digits.
\<close>

definition isNumeric :: "string \<Rightarrow> bool" where
  "isNumeric s =
     (let t = strip_sign s; r = dropWhile is_digit t
      in (t \<noteq> [] \<and> r = [])
         \<or> (case r of [] \<Rightarrow> False | c # f \<Rightarrow> c = CHR ''.'' \<and> all_digits f))"

text \<open>\<open>notEmpty()\<close> is the negation of \<open>isEmpty\<close>, which does not trim.\<close>

definition isEmpty :: "string \<Rightarrow> bool" where
  "isEmpty s = (length s = 0)"

text \<open>\<open>isBoolean\<close> with no options: one of four spellings.\<close>

definition isBoolean :: "string \<Rightarrow> bool" where
  "isBoolean s = (s \<in> set [''true'', ''false'', ''1'', ''0''])"

datatype location = Params | Body

datatype rule = IsInt | IsNumeric | NotEmpty | IsBoolean | Custom "jsval \<Rightarrow> bool"

record verror =
  msg :: string
  path :: string
  location :: location
  val :: jsval

record chain =
  source :: location
  field :: string
  rules :: "(rule \<times> string) list"

definition select_field :: "location \<Rightarrow> string \<Rightarrow> request \<Rightarrow> jsval" where
  "select_field l f req =
     (case l of
        Params \<Rightarrow> (case params req f of None \<Rightarrow> JUndefined | Some s \<Rightarrow> JStr s)
      | Body \<Rightarrow> (case body req f of None \<Rightarrow> JUndefined | Some v \<Rightarrow> v))"

fun passes :: "rule \<Rightarrow> jsval \<Rightarrow> bool" where
  "passes IsInt v = isInt (toString v)"
| "passes IsNumeric v = isNumeric (toString v)"
| "passes NotEmpty v = (\<not> isEmpty (toString v))"
| "passes IsBoolean v = isBoolean (toString v)"
| "passes (Custom f) v = f v"

text \<open>Every rule of a chain runs; each failing one adds its entry, in order.\<close>

definition run_chain :: "chain \<Rightarrow> request \<Rightarrow> verror list" where
  "run_chain c req =
     (let v = select_field (source c) (field c) req
      in map (\<lambda>(r, m). \<lparr>msg = m, path = field c, location = source c, val = v\<rparr>)
           (filter (\<lambda>(r, m). \<not> passes r v) (rules c)))"

definition validationResult :: "chain list \<Rightarrow> request \<Rightarrow> verror list" where
  "validationResult cs req = concat (map (\<lambda>c. run_chain c req) cs)"

section \<open>Responses and the stored products\<close>

record product =
  product_id :: int
  name :: jsval
  price :: jsval
  availability :: bool

datatype payload =
    Errors "verror list"
  | Error string
  | Data product
  | DataList "product list"
  | DataText string

record response =
  status :: nat
  json :: payload

record store =
  table :: "product list"
  next_id :: int

type_synonym handler = "request \<Rightarrow> store \<Rightarrow> response \<times> store"

record handlers =
  getProducts :: handler
  getProductByID :: handler
  createProduct :: handler
  updateProduct :: handler
  updateAvailability :: handler
  deleteProduct :: handler

section \<open>The middleware\<close>

text \<open>
  Modelled from the spec: \<open>handleInputErrors\<close> of \<open>./middleware\<close>, which is not among
  the sources. Section 4.1: if the list of failures is non-empty, respond 400 with
  \<open>{errors: [...]}\<close> and stop; otherwise pass control to the next stage unchanged.
\<close>

definition handleInputErrors :: "verror list \<Rightarrow> handler \<Rightarrow> handler" where
  "handleInputErrors errs next req st =
     (if errs \<noteq> [] then (\<lparr>status = 400, json = Errors errs\<rparr>, st) else next req st)"

text \<open>A route: its chains, then \<open>handleInputErrors\<close>, then its handler.\<close>

definition route :: "chain list \<Rightarrow> handler \<Rightarrow> handler" where
  "route cs h req st = handleInputErrors (validationResult cs req) h req st"

section \<open>The router\<close>

text \<open>
  The four chains of \<open>router.ts\<close>. The routes spell them out each time (one on
  \<open>param('id')\<close> for every \<open>/:id\<close> route, those on \<open>body('name')\<close> and \<open>body('price')\<close>
  for POST and PUT, the one on \<open>body('availability')\<close> for PUT); they are named once
  here. The last rule on the price is \<open>custom(value => value > 0)\<close>.
\<close>

definition id_chain :: chain where
  "id_chain =
     \<lparr>source = Params, field = ''id'',
      rules = [(IsInt, ''Id no v'' @ [CHR 0xE1] @ ''lido'')]\<rparr>"

definition name_chain :: chain where
  "name_chain =
     \<lparr>source = Body, field = ''name'',
      rules = [(NotEmpty, ''El nombre del producto no puede ir vac'' @ [CHR 0xED] @ ''o'')]\<rparr>"

definition price_chain :: chain where
  "price_chain =
     \<lparr>source = Body, field = ''price'',
      rules =
        [(IsNumeric, ''Valor no v'' @ [CHR 0xE1] @ ''lido''),
         (NotEmpty, ''El precio del producto no puede ir vac'' @ [CHR 0xED] @ ''o''),
         (Custom (\<lambda>v. js_gt_zero v), ''El precio del producto no es v'' @ [CHR 0xE1] @ ''lido'')]\<rparr>"

definition availability_chain :: chain where
  "availability_chain =
     \<lparr>source = Body, field = ''availability'',
      rules = [(IsBoolean, ''Valor para disponibilidad no v'' @ [CHR 0xE1] @ ''lido'')]\<rparr>"

text \<open>
  The routes in the order of \<open>router.ts\<close>, on the path below the mount point:
  \<open>[]\<close> is \<open>/\<close> and \<open>[i]\<close> is \<open>/:id\<close>. \<open>None\<close>: no route matches and the request
  is passed on.
\<close>

definition with_id :: "string \<Rightarrow> request \<Rightarrow> request" where
  "with_id i req = req\<lparr>params := [''id'' \<mapsto> i]\<rparr>"

definition router_with :: "handlers \<Rightarrow> request \<Rightarrow> store \<Rightarrow> (response \<times> store) option" where
  "router_with h req st =
     (case http_path req of
        [] \<Rightarrow>
          (case http_method req of
             GET \<Rightarrow> Some (getProducts h (req\<lparr>params := Map.empty\<rparr>) st)
           | POST \<Rightarrow>
               Some (route [name_chain, price_chain] (createProduct h)
                       (req\<lparr>params := Map.empty\<rparr>) st)
           | _ \<Rightarrow> None)
      | [i] \<Rightarrow>
          (case http_method req of
             GET \<Rightarrow> Some (route [id_chain] (getProductByID h) (with_id i req) st)
           | POST \<Rightarrow> None
           | PUT \<Rightarrow>
               Some (route [id_chain, name_chain, price_chain, availability_chain]
                       (updateProduct h) (with_id i req) st)
           | PATCH \<Rightarrow> Some (route [id_chain] (updateAvailability h) (with_id i req) st)
           | DELETE \<Rightarrow> Some (route [id_chain] (deleteProduct h) (with_id i req) st))
      | _ \<Rightarrow> None)"

section \<open>The handlers\<close>

text \<open>
  Modelled from the spec: the id by which the persistence collaborator (not among the
  sources) finds a row, sections 3 and 6: the integer that the path parameter denotes
  once \<open>isInt\<close> has accepted it.
\<close>

definition id_value :: "string \<Rightarrow> int" where
  "id_value s =
     (case s of
        [] \<Rightarrow> 0
      | c # r \<Rightarrow>
          if c = CHR ''-'' then - int (digits_val 10 r)
          else int (digits_val 10 (strip_sign s)))"

text \<open>
  Modelled from the spec: \<open>findAll()\<close> of the persistence collaborator (the model of
  \<open>Product\<close> and the database behind it, not among the sources), sections 4.2 and 6:
  all rows ordered by id ascending. The collaborator is a table in memory here, and
  its calls do not fail.
\<close>

definition findAll :: "store \<Rightarrow> product list" where
  "findAll st = sort_key product_id (table st)"

text \<open>
  Modelled from the spec: \<open>findById(id)\<close> of the persistence collaborator (not among
  the sources), section 6: the row with the id, absence being an empty result and not
  an error.
\<close>

definition findById :: "store \<Rightarrow> string option \<Rightarrow> product option" where
  "findById st i =
     (case i of
        None \<Rightarrow> None
      | Some s \<Rightarrow> find (\<lambda>p. product_id p = id_value s) (table st))"

text \<open>
  Modelled from the spec: \<open>create(fields)\<close> of the persistence collaborator (not among
  the sources), sections 3 and 6: the storage generates the id, and the availability
  defaults to true.
\<close>

definition create :: "jsval \<Rightarrow> jsval \<Rightarrow> store \<Rightarrow> product \<times> store" where
  "create n p st =
     (let row = \<lparr>product_id = next_id st, name = n, price = p, availability = True\<rparr>
      in (row, st\<lparr>table := table st @ [row], next_id := next_id st + 1\<rparr>))"

text \<open>
  Modelled from the spec: \<open>save(instance)\<close> of the persistence collaborator (not among
  the sources), section 6: the row of that id is replaced.
\<close>

definition save :: "product \<Rightarrow> store \<Rightarrow> store" where
  "save p st =
     st\<lparr>table := map (\<lambda>q. if product_id q = product_id p then p else q) (table st)\<rparr>"

text \<open>
  Modelled from the spec: \<open>destroy(instance)\<close> of the persistence collaborator (not
  among the sources), section 6: the row of that id is removed.
\<close>

definition destroy :: "product \<Rightarrow> store \<Rightarrow> store" where
  "destroy p st = st\<lparr>table := filter (\<lambda>q. product_id q \<noteq> product_id p) (table st)\<rparr>"

text \<open>
  Modelled from the spec: the not-found answer of the handlers of \<open>./handlers/product\<close>
  (not among the sources), sections 4.2 and 6: status 404 and the body
  \<open>{error: "Product not found"}\<close>.
\<close>

definition not_found :: response where
  "not_found = \<lparr>status = 404, json = Error ''Product not found''\<rparr>"

text \<open>
  Modelled from the spec: \<open>getProducts\<close> of \<open>./handlers/product\<close> (not among the
  sources), section 4.2, List: respond 200 with all rows.
\<close>

definition get_products :: handler where
  "get_products req st = (\<lparr>status = 200, json = DataList (findAll st)\<rparr>, st)"

text \<open>
  Modelled from the spec: \<open>getProductByID\<close> of \<open>./handlers/product\<close> (not among the
  sources), section 4.2, GetByID: fetch the row by id; if absent, 404; else 200 with
  the row.
\<close>

definition get_product_by_id :: handler where
  "get_product_by_id req st =
     (case findById st (params req ''id'') of
        None \<Rightarrow> (not_found, st)
      | Some p \<Rightarrow> (\<lparr>status = 200, json = Data p\<rparr>, st))"

text \<open>
  Modelled from the spec: \<open>createProduct\<close> of \<open>./handlers/product\<close> (not among the
  sources), section 4.2, Create: a row from the validated name and price, persisted;
  respond 201 with it.
\<close>

definition create_product :: handler where
  "create_product req st =
     (let (row, st') =
            create (select_field Body ''name'' req) (select_field Body ''price'' req) st
      in (\<lparr>status = 201, json = Data row\<rparr>, st'))"

text \<open>
  Modelled from the spec: \<open>updateProduct\<close> of \<open>./handlers/product\<close> (not among the
  sources), section 4.2, Update: fetch by id; if absent, 404; else overwrite name,
  price and availability from the body, persist, respond 200 with the row. The
  validated availability is stored as the boolean it spells.
\<close>

definition update_product :: handler where
  "update_product req st =
     (case findById st (params req ''id'') of
        None \<Rightarrow> (not_found, st)
      | Some p \<Rightarrow>
          (let p' = p\<lparr>name := select_field Body ''name'' req,
                      price := select_field Body ''price'' req,
                      availability :=
                        (toString (select_field Body ''availability'' req)
                           \<in> set [''true'', ''1''])\<rparr>
           in (\<lparr>status = 200, json = Data p'\<rparr>, save p' st)))"

text \<open>
  Modelled from the spec: \<open>updateAvailability\<close> of \<open>./handlers/product\<close> (not among
  the sources), section 4.2, PatchAvailability: fetch by id; if absent, 404; else flip
  the availability, persist, respond 200 with the row.
\<close>

definition update_availability :: handler where
  "update_availability req st =
     (case findById st (params req ''id'') of
        None \<Rightarrow> (not_found, st)
      | Some p \<Rightarrow>
          (let p' = p\<lparr>availability := \<not> availability p\<rparr>
           in (\<lparr>status = 200, json = Data p'\<rparr>, save p' st)))"

text \<open>
  Modelled from the spec: \<open>deleteProduct\<close> of \<open>./handlers/product\<close> (not among the
  sources), section 4.2, Delete: fetch by id; if absent, 404; else remove the row and
  respond 200 with \<open>{data: "Product deleted"}\<close>.
\<close>

definition delete_product :: handler where
  "delete_product req st =
     (case findById st (params req ''id'') of
        None \<Rightarrow> (not_found, st)
      | Some p \<Rightarrow> (\<lparr>status = 200, json = DataText ''Product deleted''\<rparr>, destroy p st))"

text \<open>The handlers that \<open>router.ts\<close> imports, and the router with them.\<close>

definition product_handlers :: handlers where
  "product_handlers =
     \<lparr>getProducts = get_products, getProductByID = get_product_by_id,
      createProduct = create_product, updateProduct = update_product,
      updateAvailability = update_availability, deleteProduct = delete_product\<rparr>"

definition router :: "request \<Rightarrow> store \<Rightarrow> (response \<times> store) option" where
  "router = router_with product_handlers"

section \<open>The server\<close>

record env =
  FRONTEND_URL :: "string option"

text \<open>
  What the \<open>origin\<close> function of \<open>corsOptions\<close> passes to its callback:
  \<open>callback(null, true)\<close> or \<open>callback(new Error(...))\<close>.
\<close>

datatype cors_callback = Allowed | Failed string

definition corsOptions_origin :: "env \<Rightarrow> string option \<Rightarrow> cors_callback" where
  "corsOptions_origin e orig =
     (if orig = FRONTEND_URL e then Allowed else Failed ''Error de cors'')"

text \<open>
  What becomes of a request: the \<open>cors\<close> middleware ends it with the error of the
  callback; the router answers it; or it is passed on beyond \<open>/api/products\<close> (to the
  documentation pages and the framework's own 404).
\<close>

datatype outcome = CorsError string | Routed response store | PassedOn

text \<open>Express matches a mount path without regard to the case of its letters.\<close>

definition lowercase :: "string \<Rightarrow> string" where
  "lowercase s =
     map (\<lambda>c. case map_of (zip ''ABCDEFGHIJKLMNOPQRSTUVWXYZ'' ''abcdefghijklmnopqrstuvwxyz'') c of
                None \<Rightarrow> c
              | Some l \<Rightarrow> l) s"

definition server :: "env \<Rightarrow> request \<Rightarrow> store \<Rightarrow> outcome" where
  "server e req st =
     (case corsOptions_origin e (origin req) of
        Failed m \<Rightarrow> CorsError m
      | Allowed \<Rightarrow>
          (case http_path req of
             a # b # rest \<Rightarrow>
               if lowercase a = ''api'' \<and> lowercase b = ''products''
               then (case router (req\<lparr>http_path := rest\<rparr>) st of
                       None \<Rightarrow> PassedOn
                     | Some (r, st') \<Rightarrow> Routed r st')
               else PassedOn
           | _ \<Rightarrow> PassedOn))"

section \<open>Reading an answer\<close>

text \<open>The entries of a validation answer (none for any other answer).\<close>

definition sent_errors :: "(response \<times> store) option \<Rightarrow> verror list" where
  "sent_errors r =
     (case r of
        None \<Rightarrow> []
      | Some (x, st) \<Rightarrow> (case json x of Errors es \<Rightarrow> es | _ \<Rightarrow> []))"

section \<open>Evaluating the chains\<close>

lemmas chain_defs = id_chain_def name_chain_def price_chain_def availability_chain_def

lemmas route_defs = router_with_def with_id_def route_def handleInputErrors_def
  validationResult_def run_chain_def select_field_def

lemma number_to_string_0: "number_to_string 0 = ''0''"
  by (simp add: number_to_string_def digits_of.simps [of 0])

lemmas number_defs = isInt_def isNumeric_def isEmpty_def isBoolean_def strip_sign_def
  all_digits_def digit_in_def digit_of_def digits_val_def js_gt_zero_def StringToNumber_def
  trim_def js_whitespace_def radix_literal_def str_decimal_def unsigned_decimal_def
  exponent_part_def signed_integer_def negate_def id_value_def

lemmas handler_defs = router_def product_handlers_def not_found_def get_products_def
  get_product_by_id_def create_product_def update_product_def update_availability_def
  delete_product_def findAll_def findById_def create_def save_def destroy_def

text \<open>
  Behind an accepted id, a route runs the rules on the body (PUT only) and then its
  handler with \<open>params.id\<close> set.
\<close>

lemma validationResult_Cons:
  "validationResult (c # cs) req = run_chain c req @ validationResult cs req"
  by (simp add: validationResult_def)

lemma run_id_chain:
  "run_chain id_chain (with_id i req) =
     (if isInt i then []
      else [\<lparr>msg = ''Id no v'' @ [CHR 0xE1] @ ''lido'', path = ''id'', location = Params,
             val = JStr i\<rparr>])"
  by (simp add: run_chain_def select_field_def id_chain_def with_id_def)

lemma body_chains_with_id:
  "validationResult [name_chain, price_chain, availability_chain] (with_id i req) =
   validationResult [name_chain, price_chain, availability_chain] req"
  by (simp add: validationResult_def run_chain_def select_field_def with_id_def
      name_chain_def price_chain_def availability_chain_def)

lemma id_route:
  assumes "http_path req = [i]" and "isInt i" and "http_method req \<noteq> POST"
    and "http_method req = PUT \<longrightarrow>
           validationResult [name_chain, price_chain, availability_chain] req = []"
  shows "router_with h req st =
    Some ((case http_method req of
             GET \<Rightarrow> getProductByID h
           | PUT \<Rightarrow> updateProduct h
           | PATCH \<Rightarrow> updateAvailability h
           | _ \<Rightarrow> deleteProduct h) (with_id i req) st)"
proof (cases "http_method req")
  case PUT
  with assms(4)
  have "validationResult [id_chain, name_chain, price_chain, availability_chain]
          (with_id i req) = []"
    using assms(2)
    by (simp only: validationResult_Cons [of id_chain] run_id_chain body_chains_with_id) simp
  with PUT assms(1) show ?thesis
    by (simp add: router_with_def route_def handleInputErrors_def)
qed (use assms in \<open>simp_all add: route_defs id_chain_def\<close>)

section \<open>The table\<close>

lemma find_product_id:
  "find (\<lambda>q. product_id q = k) xs = Some p \<Longrightarrow> product_id p = k"
  by (induction xs) (auto split: if_splits)

lemma find_after_save:
  "find (\<lambda>q. product_id q = k) xs = Some p \<Longrightarrow> product_id p' = k \<Longrightarrow>
   find (\<lambda>q. product_id q = k) (map (\<lambda>q. if product_id q = k then p' else q) xs) = Some p'"
  by (induction xs) (auto split: if_splits)

lemma find_after_destroy:
  "find (\<lambda>q. product_id q = k) (filter (\<lambda>q. product_id q \<noteq> k) xs) = None"
  by (induction xs) auto

lemma findById_save:
  assumes "findById st (Some i) = Some p" and "product_id p' = product_id p"
  shows "findById (save p' st) (Some i) = Some p'"
proof -
  from assms(1) have f: "find (\<lambda>q. product_id q = id_value i) (table st) = Some p"
    by (simp add: findById_def)
  then have k: "product_id p = id_value i" by (rule find_product_id)
  with assms(2) have "product_id p' = id_value i" by simp
  with f show ?thesis
    by (simp add: findById_def save_def find_after_save)
qed

lemma findById_destroy:
  assumes "findById st (Some i) = Some p"
  shows "findById (destroy p st) (Some i) = None"
proof -
  from assms have "find (\<lambda>q. product_id q = id_value i) (table st) = Some p"
    by (simp add: findById_def)
  then have "product_id p = id_value i" by (rule find_product_id)
  then show ?thesis
    by (simp add: findById_def destroy_def find_after_destroy)
qed

section \<open>A malformed id\<close>

text \<open>
  C1, as the code has it. A request to \<open>/api/products/:id\<close> whose id \<open>isInt\<close> rejects
  is answered 400, and the first entry carries the message \<open>Id no valido\<close> (its a with
  an acute accent, the code unit \<open>0xE1\<close>). For GET, PATCH and DELETE it is the only entry. For PUT
  the entries of the failing rules on the body follow it, so there is exactly one entry
  only when the body passes its rules. No handler runs: the answer is the same for
  every set of handlers, and the store is untouched.
\<close>

theorem invalid_id_is_rejected:
  assumes "http_path req = [i]" and "\<not> isInt i" and "http_method req \<noteq> POST"
  shows "router_with h req st =
    Some (\<lparr>status = 400, json = Errors
      (\<lparr>msg = ''Id no v'' @ [CHR 0xE1] @ ''lido'', path = ''id'', location = Params,
        val = JStr i\<rparr> #
       (if http_method req = PUT
        then validationResult [name_chain, price_chain, availability_chain] req
        else []))\<rparr>, st)"
  using assms
  by (cases "http_method req") (simp_all add: route_defs chain_defs)

theorem invalid_id_is_rejected_witness:
  "\<not> isInt ''not-valid-url'' \<and>
   router
     \<lparr>origin = None, http_method = GET, http_path = [''not-valid-url''],
      params = Map.empty, body = Map.empty\<rparr>
     \<lparr>table = [], next_id = 1\<rparr> =
    Some (\<lparr>status = 400, json = Errors
      [\<lparr>msg = ''Id no v'' @ [CHR 0xE1] @ ''lido'', path = ''id'', location = Params,
        val = JStr ''not-valid-url''\<rparr>]\<rparr>, \<lparr>table = [], next_id = 1\<rparr>)"
proof -
  have bad: "\<not> isInt ''not-valid-url''"
    by (simp add: number_defs)
  show ?thesis
    using bad invalid_id_is_rejected
      [where req = "\<lparr>origin = None, http_method = GET, http_path = [''not-valid-url''],
                      params = Map.empty, body = Map.empty\<rparr>"
         and i = "''not-valid-url''" and h = product_handlers, OF _ bad]
    by (simp add: router_def)
qed

text \<open>
  The claim as the specification words it fails twice. GET
  \<open>/api/products/not-valid-url\<close> is answered with one entry whose message is not
  \<open>Invalid id\<close>; PUT on the same path with an empty body is answered with six
  entries, not one.
\<close>

theorem invalid_id_counterexample:
  "map msg (sent_errors (router
     \<lparr>origin = None, http_method = GET, http_path = [''not-valid-url''],
      params = Map.empty, body = Map.empty\<rparr> \<lparr>table = [], next_id = 1\<rparr>))
     = [''Id no v'' @ [CHR 0xE1] @ ''lido'']
   \<and> map msg (sent_errors (router
     \<lparr>origin = None, http_method = GET, http_path = [''not-valid-url''],
      params = Map.empty, body = Map.empty\<rparr> \<lparr>table = [], next_id = 1\<rparr>))
     \<noteq> [''Invalid id'']
   \<and> length (sent_errors (router
     \<lparr>origin = None, http_method = PUT, http_path = [''not-valid-url''],
      params = Map.empty, body = Map.empty\<rparr> \<lparr>table = [], next_id = 1\<rparr>)) = 6"
  by (simp add: sent_errors_def router_def route_defs chain_defs number_defs)

section \<open>An id without a product\<close>

text \<open>
  C2. For an id that \<open>isInt\<close> accepts and that no stored product has, the four
  operations GetByID, Update, PatchAvailability and Delete answer 404 with the body
  exactly \<open>{error: "Product not found"}\<close>, and leave the store as it is. So do the
  routes to them; the PUT route reaches Update only once the body has passed its
  rules, and answers 400 before that.
\<close>

theorem absent_product_is_not_found:
  assumes "isInt i" and "findById st (Some i) = None"
  shows "(params req ''id'' = Some i \<longrightarrow>
            get_product_by_id req st =
              (\<lparr>status = 404, json = Error ''Product not found''\<rparr>, st)
          \<and> update_product req st =
              (\<lparr>status = 404, json = Error ''Product not found''\<rparr>, st)
          \<and> update_availability req st =
              (\<lparr>status = 404, json = Error ''Product not found''\<rparr>, st)
          \<and> delete_product req st =
              (\<lparr>status = 404, json = Error ''Product not found''\<rparr>, st))
       \<and> (http_path req = [i] \<and> http_method req \<noteq> POST
          \<and> (http_method req = PUT \<longrightarrow>
                validationResult [name_chain, price_chain, availability_chain] req = [])
          \<longrightarrow> router req st =
              Some (\<lparr>status = 404, json = Error ''Product not found''\<rparr>, st))"
proof -
  have h: "params r ''id'' = Some i \<Longrightarrow>
      get_product_by_id r st = (not_found, st) \<and> update_product r st = (not_found, st)
      \<and> update_availability r st = (not_found, st) \<and> delete_product r st = (not_found, st)"
    for r
    using assms(2)
    by (simp add: get_product_by_id_def update_product_def update_availability_def
        delete_product_def)
  have p: "params (with_id i req) ''id'' = Some i"
    by (simp add: with_id_def)
  have r: "router req st = Some (not_found, st)"
    if "http_path req = [i]" and "http_method req \<noteq> POST"
      and "http_method req = PUT \<longrightarrow>
             validationResult [name_chain, price_chain, availability_chain] req = []"
    using h [OF p] id_route [OF that(1) assms(1) that(2) that(3), of product_handlers st]
    by (cases "http_method req") (simp_all add: router_def product_handlers_def)
  show ?thesis using h [of req] r by (simp add: not_found_def)
qed

theorem absent_product_is_not_found_witness:
  "isInt ''2000'' \<and>
   router
     \<lparr>origin = None, http_method = GET, http_path = [''2000''], params = Map.empty,
      body = Map.empty\<rparr>
     \<lparr>table = [\<lparr>product_id = 1, name = JStr ''Mouse - Testing'', price = JNum 100,
                 availability = True\<rparr>], next_id = 2\<rparr> =
    Some (\<lparr>status = 404, json = Error ''Product not found''\<rparr>,
     \<lparr>table = [\<lparr>product_id = 1, name = JStr ''Mouse - Testing'', price = JNum 100,
                 availability = True\<rparr>], next_id = 2\<rparr>)
   \<and> delete_product
     \<lparr>origin = None, http_method = DELETE, http_path = [''2000''],
      params = [''id'' \<mapsto> ''2000''], body = Map.empty\<rparr>
     \<lparr>table = [\<lparr>product_id = 1, name = JStr ''Mouse - Testing'', price = JNum 100,
                 availability = True\<rparr>], next_id = 2\<rparr> =
    (\<lparr>status = 404, json = Error ''Product not found''\<rparr>,
     \<lparr>table = [\<lparr>product_id = 1, name = JStr ''Mouse - Testing'', price = JNum 100,
                 availability = True\<rparr>], next_id = 2\<rparr>)"
proof -
  let ?st = "\<lparr>table = [\<lparr>product_id = 1, name = JStr ''Mouse - Testing'', price = JNum 100,
                 availability = True\<rparr>], next_id = 2\<rparr>"
  have int: "isInt ''2000''"
    by (simp add: number_defs)
  have none: "findById ?st (Some ''2000'') = None"
    by (simp add: findById_def number_defs)
  show ?thesis
    using int
      absent_product_is_not_found [OF int none,
        where req = "\<lparr>origin = None, http_method = GET, http_path = [''2000''],
                        params = Map.empty, body = Map.empty\<rparr>"]
      absent_product_is_not_found [OF int none,
        where req = "\<lparr>origin = None, http_method = DELETE, http_path = [''2000''],
                        params = [''id'' \<mapsto> ''2000''], body = Map.empty\<rparr>"]
    by simp
qed

section \<open>Validation of a new product\<close>

text \<open>
  C3. A POST to \<open>/api/products\<close> whose body has neither \<open>name\<close> nor \<open>price\<close> is
  answered 400 with exactly four entries, in the order the rules are declared: the
  name is empty, the price is not numeric, the price is empty, the price is not above
  zero. The three rules on the price all report the missing field. No handler runs
  (the answer is the same for every set of handlers, and the store is untouched).
\<close>

theorem post_without_name_and_price:
  assumes "http_method req = POST" and "http_path req = []"
    and "body req ''name'' = None" and "body req ''price'' = None"
  shows "router_with h req st =
    Some (\<lparr>status = 400, json = Errors
      [\<lparr>msg = ''El nombre del producto no puede ir vac'' @ [CHR 0xED] @ ''o'',
        path = ''name'', location = Body, val = JUndefined\<rparr>,
       \<lparr>msg = ''Valor no v'' @ [CHR 0xE1] @ ''lido'',
        path = ''price'', location = Body, val = JUndefined\<rparr>,
       \<lparr>msg = ''El precio del producto no puede ir vac'' @ [CHR 0xED] @ ''o'',
        path = ''price'', location = Body, val = JUndefined\<rparr>,
       \<lparr>msg = ''El precio del producto no es v'' @ [CHR 0xE1] @ ''lido'',
        path = ''price'', location = Body, val = JUndefined\<rparr>]\<rparr>, st)"
  using assms
  by (simp add: route_defs chain_defs isNumeric_def isEmpty_def strip_sign_def js_gt_zero_def)

theorem post_without_name_and_price_witness:
  "router
     \<lparr>origin = None, http_method = POST, http_path = [], params = Map.empty, body = Map.empty\<rparr>
     \<lparr>table = [], next_id = 1\<rparr> =
    Some (\<lparr>status = 400, json = Errors
      [\<lparr>msg = ''El nombre del producto no puede ir vac'' @ [CHR 0xED] @ ''o'',
        path = ''name'', location = Body, val = JUndefined\<rparr>,
       \<lparr>msg = ''Valor no v'' @ [CHR 0xE1] @ ''lido'',
        path = ''price'', location = Body, val = JUndefined\<rparr>,
       \<lparr>msg = ''El precio del producto no puede ir vac'' @ [CHR 0xED] @ ''o'',
        path = ''price'', location = Body, val = JUndefined\<rparr>,
       \<lparr>msg = ''El precio del producto no es v'' @ [CHR 0xE1] @ ''lido'',
        path = ''price'', location = Body, val = JUndefined\<rparr>]\<rparr>,
      \<lparr>table = [], next_id = 1\<rparr>)"
  using post_without_name_and_price
    [where req = "\<lparr>origin = None, http_method = POST, http_path = [], params = Map.empty,
                    body = Map.empty\<rparr>"
       and h = product_handlers and st = "\<lparr>table = [], next_id = 1\<rparr>"]
  by (simp add: router_def)

section \<open>The price of a new product\<close>

text \<open>
  C5, as the code has it. A POST to \<open>/api/products\<close> with a non-empty string as name
  and the number 0 as price is answered 400 with exactly one entry, from the rule that
  the price is above zero; its message is \<open>El precio del producto no es valido\<close> (the a
  with an acute accent, the code unit \<open>0xE1\<close>).
\<close>

theorem post_with_price_zero:
  assumes "http_method req = POST" and "http_path req = []"
    and "body req ''name'' = Some (JStr n)" and "n \<noteq> []"
    and "body req ''price'' = Some (JNum 0)"
  shows "router_with h req st =
    Some (\<lparr>status = 400, json = Errors
      [\<lparr>msg = ''El precio del producto no es v'' @ [CHR 0xE1] @ ''lido'',
        path = ''price'', location = Body, val = JNum 0\<rparr>]\<rparr>, st)"
  using assms
  by (simp add: route_defs chain_defs isNumeric_def isEmpty_def strip_sign_def js_gt_zero_def
      number_to_string_0 all_digits_def digit_in_def digit_of_def)

theorem post_with_price_zero_witness:
  "router
     \<lparr>origin = None, http_method = POST, http_path = [], params = Map.empty,
      body = [''name'' \<mapsto> JStr ''Monitor Curvo'', ''price'' \<mapsto> JNum 0]\<rparr>
     \<lparr>table = [], next_id = 1\<rparr> =
    Some (\<lparr>status = 400, json = Errors
      [\<lparr>msg = ''El precio del producto no es v'' @ [CHR 0xE1] @ ''lido'',
        path = ''price'', location = Body, val = JNum 0\<rparr>]\<rparr>, \<lparr>table = [], next_id = 1\<rparr>)"
  using post_with_price_zero
    [where req = "\<lparr>origin = None, http_method = POST, http_path = [], params = Map.empty,
                    body = [''name'' \<mapsto> JStr ''Monitor Curvo'', ''price'' \<mapsto> JNum 0]\<rparr>"
       and n = "''Monitor Curvo''" and h = product_handlers
       and st = "\<lparr>table = [], next_id = 1\<rparr>"]
  by (simp add: router_def)

text \<open>
  The one entry does not carry the message the specification words: the request of the
  repository's test, name \<open>Monitor Curvo\<close> and price 0.
\<close>

theorem post_with_price_zero_counterexample:
  "map msg (sent_errors (router
     \<lparr>origin = None, http_method = POST, http_path = [], params = Map.empty,
      body = [''name'' \<mapsto> JStr ''Monitor Curvo'', ''price'' \<mapsto> JNum 0]\<rparr>
     \<lparr>table = [], next_id = 1\<rparr>))
     = [''El precio del producto no es v'' @ [CHR 0xE1] @ ''lido'']
   \<and> map msg (sent_errors (router
     \<lparr>origin = None, http_method = POST, http_path = [], params = Map.empty,
      body = [''name'' \<mapsto> JStr ''Monitor Curvo'', ''price'' \<mapsto> JNum 0]\<rparr>
     \<lparr>table = [], next_id = 1\<rparr>))
     \<noteq> [''Invalid product price'']"
  by (simp add: sent_errors_def router_def route_defs chain_defs number_defs number_to_string_0)

text \<open>
  C6, as the code has it. A POST to \<open>/api/products\<close> with a non-empty string as name
  and, as price, a non-empty string that \<open>isNumeric\<close> rejects is answered 400. The
  numeric rule reports it and the presence rule does not. The rule \<open>value > 0\<close> compares
  the number JavaScript reads from the string: it reports the price, for two entries
  in all, unless that number is above zero, and then there is one entry.
\<close>

theorem post_with_text_price:
  assumes "http_method req = POST" and "http_path req = []"
    and "body req ''name'' = Some (JStr n)" and "n \<noteq> []"
    and "body req ''price'' = Some (JStr s)" and "s \<noteq> []" and "\<not> isNumeric s"
  shows "router_with h req st =
    Some (\<lparr>status = 400, json = Errors
      (\<lparr>msg = ''Valor no v'' @ [CHR 0xE1] @ ''lido'',
        path = ''price'', location = Body, val = JStr s\<rparr> #
       (if js_gt_zero (JStr s) then []
        else [\<lparr>msg = ''El precio del producto no es v'' @ [CHR 0xE1] @ ''lido'',
               path = ''price'', location = Body, val = JStr s\<rparr>]))\<rparr>, st)"
  using assms
  by (simp add: route_defs chain_defs isEmpty_def Let_def)

theorem post_with_text_price_witness:
  "\<not> isNumeric ''Hola'' \<and> \<not> js_gt_zero (JStr ''Hola'') \<and>
   router
     \<lparr>origin = None, http_method = POST, http_path = [], params = Map.empty,
      body = [''name'' \<mapsto> JStr ''Monitor Curvo'', ''price'' \<mapsto> JStr ''Hola'']\<rparr>
     \<lparr>table = [], next_id = 1\<rparr> =
    Some (\<lparr>status = 400, json = Errors
      [\<lparr>msg = ''Valor no v'' @ [CHR 0xE1] @ ''lido'',
        path = ''price'', location = Body, val = JStr ''Hola''\<rparr>,
       \<lparr>msg = ''El precio del producto no es v'' @ [CHR 0xE1] @ ''lido'',
        path = ''price'', location = Body, val = JStr ''Hola''\<rparr>]\<rparr>,
      \<lparr>table = [], next_id = 1\<rparr>)"
proof -
  have nn: "\<not> isNumeric ''Hola''"
    by (simp add: number_defs)
  have np: "\<not> js_gt_zero (JStr ''Hola'')"
    by (simp add: number_defs)
  show ?thesis
    using nn np post_with_text_price
      [where req = "\<lparr>origin = None, http_method = POST, http_path = [], params = Map.empty,
           body = [''name'' \<mapsto> JStr ''Monitor Curvo'', ''price'' \<mapsto> JStr ''Hola'']\<rparr>"
         and n = "''Monitor Curvo''" and s = "''Hola''" and h = product_handlers
         and st = "\<lparr>table = [], next_id = 1\<rparr>"]
    by (simp add: router_def)
qed

text \<open>
  The price \<open>1e3\<close> is a non-empty string that \<open>isNumeric\<close> rejects (the rule knows no
  exponent), and JavaScript reads 1000 from it: one entry, not two.
\<close>

theorem post_with_text_price_counterexample:
  "''1e3'' \<noteq> [] \<and> \<not> isNumeric ''1e3'' \<and>
   map msg (sent_errors (router
     \<lparr>origin = None, http_method = POST, http_path = [], params = Map.empty,
      body = [''name'' \<mapsto> JStr ''Monitor Curvo'', ''price'' \<mapsto> JStr ''1e3'']\<rparr>
     \<lparr>table = [], next_id = 1\<rparr>))
     = [''Valor no v'' @ [CHR 0xE1] @ ''lido'']
   \<and> length (sent_errors (router
     \<lparr>origin = None, http_method = POST, http_path = [], params = Map.empty,
      body = [''name'' \<mapsto> JStr ''Monitor Curvo'', ''price'' \<mapsto> JStr ''1e3'']\<rparr>
     \<lparr>table = [], next_id = 1\<rparr>)) \<noteq> 2"
  by (simp add: sent_errors_def router_def route_defs chain_defs number_defs)

section \<open>Validation of a full update\<close>

text \<open>
  C4. A PUT to \<open>/api/products/:id\<close> with an id that \<open>isInt\<close> accepts and an empty body
  is answered 400 with exactly five entries: the name is empty, the price is not
  numeric, the price is empty, the price is not above zero, the availability is not a
  boolean.
\<close>

theorem put_with_empty_body:
  assumes "http_method req = PUT" and "http_path req = [i]" and "isInt i" and "body req = Map.empty"
  shows "router_with h req st =
    Some (\<lparr>status = 400, json = Errors
      [\<lparr>msg = ''El nombre del producto no puede ir vac'' @ [CHR 0xED] @ ''o'',
        path = ''name'', location = Body, val = JUndefined\<rparr>,
       \<lparr>msg = ''Valor no v'' @ [CHR 0xE1] @ ''lido'',
        path = ''price'', location = Body, val = JUndefined\<rparr>,
       \<lparr>msg = ''El precio del producto no puede ir vac'' @ [CHR 0xED] @ ''o'',
        path = ''price'', location = Body, val = JUndefined\<rparr>,
       \<lparr>msg = ''El precio del producto no es v'' @ [CHR 0xE1] @ ''lido'',
        path = ''price'', location = Body, val = JUndefined\<rparr>,
       \<lparr>msg = ''Valor para disponibilidad no v'' @ [CHR 0xE1] @ ''lido'',
        path = ''availability'', location = Body, val = JUndefined\<rparr>]\<rparr>, st)"
  using assms
  by (simp add: route_defs chain_defs isNumeric_def isEmpty_def isBoolean_def strip_sign_def
      js_gt_zero_def)

theorem put_with_empty_body_witness:
  "isInt ''1'' \<and>
   router
     \<lparr>origin = None, http_method = PUT, http_path = [''1''], params = Map.empty, body = Map.empty\<rparr>
     \<lparr>table = [\<lparr>product_id = 1, name = JStr ''Mouse - Testing'', price = JNum 100,
                 availability = True\<rparr>], next_id = 2\<rparr> =
    Some (\<lparr>status = 400, json = Errors
      [\<lparr>msg = ''El nombre del producto no puede ir vac'' @ [CHR 0xED] @ ''o'',
        path = ''name'', location = Body, val = JUndefined\<rparr>,
       \<lparr>msg = ''Valor no v'' @ [CHR 0xE1] @ ''lido'',
        path = ''price'', location = Body, val = JUndefined\<rparr>,
       \<lparr>msg = ''El precio del producto no puede ir vac'' @ [CHR 0xED] @ ''o'',
        path = ''price'', location = Body, val = JUndefined\<rparr>,
       \<lparr>msg = ''El precio del producto no es v'' @ [CHR 0xE1] @ ''lido'',
        path = ''price'', location = Body, val = JUndefined\<rparr>,
       \<lparr>msg = ''Valor para disponibilidad no v'' @ [CHR 0xE1] @ ''lido'',
        path = ''availability'', location = Body, val = JUndefined\<rparr>]\<rparr>,
      \<lparr>table = [\<lparr>product_id = 1, name = JStr ''Mouse - Testing'', price = JNum 100,
                 availability = True\<rparr>], next_id = 2\<rparr>)"
proof -
  have int: "isInt ''1''"
    by (simp add: isInt_def strip_sign_def all_digits_def digit_in_def digit_of_def)
  show ?thesis
    using int put_with_empty_body
      [where req = "\<lparr>origin = None, http_method = PUT, http_path = [''1''], params = Map.empty,
                      body = Map.empty\<rparr>"
         and i = "''1''" and h = product_handlers, OF _ _ int]
    by (simp add: router_def)
qed

section \<open>Toggling the availability\<close>

text \<open>
  C7. For a stored product, PATCH \<open>/api/products/:id\<close> on its id answers 200 with the
  row whose availability is the negation of the stored one, and stores that row. A
  second PATCH on the same id answers 200 with the row as it was at first, and stores
  it: the two together restore the availability.
\<close>

theorem patch_flips_availability:
  assumes "http_method req = PATCH" and "http_path req = [i]" and "isInt i"
    and "findById st (Some i) = Some p"
  shows "router req st =
           Some (\<lparr>status = 200, json = Data (p\<lparr>availability := \<not> availability p\<rparr>)\<rparr>,
                 save (p\<lparr>availability := \<not> availability p\<rparr>) st)
       \<and> findById (save (p\<lparr>availability := \<not> availability p\<rparr>) st) (Some i)
           = Some (p\<lparr>availability := \<not> availability p\<rparr>)
       \<and> router req (save (p\<lparr>availability := \<not> availability p\<rparr>) st) =
           Some (\<lparr>status = 200, json = Data p\<rparr>,
                 save p (save (p\<lparr>availability := \<not> availability p\<rparr>) st))
       \<and> findById (save p (save (p\<lparr>availability := \<not> availability p\<rparr>) st)) (Some i)
           = Some p"
proof -
  let ?p' = "p\<lparr>availability := \<not> availability p\<rparr>"
  have r: "router req s = Some (update_availability (with_id i req) s)" for s
    using assms(1-3) by (simp add: router_def id_route product_handlers_def)
  have one: "findById (save ?p' st) (Some i) = Some ?p'"
    using assms(4) by (rule findById_save) simp
  then have two: "findById (save p (save ?p' st)) (Some i) = Some p"
    by (rule findById_save) simp
  have a: "update_availability (with_id i req) st =
      (\<lparr>status = 200, json = Data ?p'\<rparr>, save ?p' st)"
    using assms(4) by (simp add: update_availability_def with_id_def Let_def)
  have b: "update_availability (with_id i req) (save ?p' st) =
      (\<lparr>status = 200, json = Data p\<rparr>, save p (save ?p' st))"
    using one by (simp add: update_availability_def with_id_def Let_def)
  show ?thesis using r a b one two by simp
qed

theorem patch_flips_availability_witness:
  "isInt ''2'' \<and>
   router
     \<lparr>origin = None, http_method = PATCH, http_path = [''2''], params = Map.empty,
      body = Map.empty\<rparr>
     \<lparr>table = [\<lparr>product_id = 2, name = JStr ''Mouse - Testing'', price = JNum 100,
                 availability = True\<rparr>], next_id = 3\<rparr> =
    Some (\<lparr>status = 200, json = Data
            \<lparr>product_id = 2, name = JStr ''Mouse - Testing'', price = JNum 100,
             availability = False\<rparr>\<rparr>,
     \<lparr>table = [\<lparr>product_id = 2, name = JStr ''Mouse - Testing'', price = JNum 100,
                 availability = False\<rparr>], next_id = 3\<rparr>)
   \<and> router
     \<lparr>origin = None, http_method = PATCH, http_path = [''2''], params = Map.empty,
      body = Map.empty\<rparr>
     \<lparr>table = [\<lparr>product_id = 2, name = JStr ''Mouse - Testing'', price = JNum 100,
                 availability = False\<rparr>], next_id = 3\<rparr> =
    Some (\<lparr>status = 200, json = Data
            \<lparr>product_id = 2, name = JStr ''Mouse - Testing'', price = JNum 100,
             availability = True\<rparr>\<rparr>,
     \<lparr>table = [\<lparr>product_id = 2, name = JStr ''Mouse - Testing'', price = JNum 100,
                 availability = True\<rparr>], next_id = 3\<rparr>)"
proof -
  let ?p = "\<lparr>product_id = 2, name = JStr ''Mouse - Testing'', price = JNum 100,
             availability = True\<rparr>"
  let ?st = "\<lparr>table = [?p], next_id = 3\<rparr>"
  have int: "isInt ''2''"
    by (simp add: number_defs)
  have found: "findById ?st (Some ''2'') = Some ?p"
    by (simp add: findById_def number_defs)
  show ?thesis
    using int patch_flips_availability
      [where req = "\<lparr>origin = None, http_method = PATCH, http_path = [''2''],
                      params = Map.empty, body = Map.empty\<rparr>", OF _ _ int found]
    by (simp add: save_def)
qed

text \<open>
  C9. The PATCH route runs the rule on the id and nothing else, and its handler reads
  \<open>params.id\<close> only: two PATCH requests on the same path, on the same store, have the
  same answer and leave the same store, whatever their bodies (and origins) are. The
  entries of the validation are the same for every set of handlers.
\<close>

theorem patch_ignores_body:
  assumes "http_method r1 = PATCH" and "http_method r2 = PATCH"
    and "http_path r1 = [i]" and "http_path r2 = [i]"
  shows "(updateAvailability h (with_id i r1) st = updateAvailability h (with_id i r2) st
            \<longrightarrow> router_with h r1 st = router_with h r2 st)
       \<and> router r1 st = router r2 st"
proof -
  have v: "validationResult [id_chain] (with_id i r1) = validationResult [id_chain] (with_id i r2)"
    by (simp add: validationResult_def run_id_chain)
  have w: "router_with h' r st =
      Some (handleInputErrors (validationResult [id_chain] (with_id i r))
              (updateAvailability h') (with_id i r) st)"
    if "http_method r = PATCH" and "http_path r = [i]" for h' r
    using that by (simp add: router_with_def route_def)
  have u: "update_availability (with_id i r1) st = update_availability (with_id i r2) st"
    by (simp add: update_availability_def with_id_def)
  have g: "router_with h' r1 st = router_with h' r2 st"
    if "updateAvailability h' (with_id i r1) st = updateAvailability h' (with_id i r2) st"
    for h'
    using that v w [OF assms(1,3)] w [OF assms(2,4)]
    by (simp add: handleInputErrors_def)
  from g [of product_handlers] u have "router r1 st = router r2 st"
    by (simp add: router_def product_handlers_def)
  with g [of h] show ?thesis by simp
qed

theorem patch_ignores_body_witness:
  "router
     \<lparr>origin = None, http_method = PATCH, http_path = [''2''], params = Map.empty,
      body = Map.empty\<rparr>
     \<lparr>table = [\<lparr>product_id = 2, name = JStr ''Mouse - Testing'', price = JNum 100,
                 availability = True\<rparr>], next_id = 3\<rparr> =
   router
     \<lparr>origin = None, http_method = PATCH, http_path = [''2''], params = Map.empty,
      body = [''availability'' \<mapsto> JBool True]\<rparr>
     \<lparr>table = [\<lparr>product_id = 2, name = JStr ''Mouse - Testing'', price = JNum 100,
                 availability = True\<rparr>], next_id = 3\<rparr>
   \<and> router
     \<lparr>origin = None, http_method = PATCH, http_path = [''2''], params = Map.empty,
      body = [''availability'' \<mapsto> JBool True]\<rparr>
     \<lparr>table = [\<lparr>product_id = 2, name = JStr ''Mouse - Testing'', price = JNum 100,
                 availability = True\<rparr>], next_id = 3\<rparr> =
    Some (\<lparr>status = 200, json = Data
            \<lparr>product_id = 2, name = JStr ''Mouse - Testing'', price = JNum 100,
             availability = False\<rparr>\<rparr>,
     \<lparr>table = [\<lparr>product_id = 2, name = JStr ''Mouse - Testing'', price = JNum 100,
                 availability = False\<rparr>], next_id = 3\<rparr>)"
proof -
  have "router
     \<lparr>origin = None, http_method = PATCH, http_path = [''2''], params = Map.empty,
      body = Map.empty\<rparr>
     \<lparr>table = [\<lparr>product_id = 2, name = JStr ''Mouse - Testing'', price = JNum 100,
                 availability = True\<rparr>], next_id = 3\<rparr> =
    Some (\<lparr>status = 200, json = Data
            \<lparr>product_id = 2, name = JStr ''Mouse - Testing'', price = JNum 100,
             availability = False\<rparr>\<rparr>,
     \<lparr>table = [\<lparr>product_id = 2, name = JStr ''Mouse - Testing'', price = JNum 100,
                 availability = False\<rparr>], next_id = 3\<rparr>)"
    by (simp add: handler_defs route_defs chain_defs number_defs Let_def)
  then show ?thesis
    using patch_ignores_body
      [where ?r1.0 = "\<lparr>origin = None, http_method = PATCH, http_path = [''2''],
                        params = Map.empty, body = Map.empty\<rparr>"
         and ?r2.0 = "\<lparr>origin = None, http_method = PATCH, http_path = [''2''],
                        params = Map.empty, body = [''availability'' \<mapsto> JBool True]\<rparr>"
         and i = "''2''" and h = product_handlers
         and st = "\<lparr>table = [\<lparr>product_id = 2, name = JStr ''Mouse - Testing'',
                     price = JNum 100, availability = True\<rparr>], next_id = 3\<rparr>"]
    by simp
qed

section \<open>Deleting a product\<close>

text \<open>
  C8. For a stored product, DELETE \<open>/api/products/:id\<close> on its id
  removes the row and answers 200 with the data \<open>Product deleted\<close>; after it no row
  has the id, and a GET on the same id answers 404.
\<close>

theorem delete_removes_product:
  assumes "http_method req = DELETE" and "http_path req = [i]" and "isInt i"
    and "findById st (Some i) = Some p"
  shows "router req st =
           Some (\<lparr>status = 200, json = DataText ''Product deleted''\<rparr>, destroy p st)
       \<and> findById (destroy p st) (Some i) = None
       \<and> router (req\<lparr>http_method := GET\<rparr>) (destroy p st) =
           Some (\<lparr>status = 404, json = Error ''Product not found''\<rparr>, destroy p st)"
proof -
  have gone: "findById (destroy p st) (Some i) = None"
    using assms(4) by (rule findById_destroy)
  have d: "router req st = Some (delete_product (with_id i req) st)"
    using assms(1-3) by (simp add: router_def id_route product_handlers_def)
  have g: "router (req\<lparr>http_method := GET\<rparr>) (destroy p st) =
      Some (get_product_by_id (with_id i (req\<lparr>http_method := GET\<rparr>)) (destroy p st))"
    using assms(2,3) by (simp add: router_def id_route product_handlers_def)
  show ?thesis
    using assms(4) gone d g
    by (simp add: delete_product_def get_product_by_id_def with_id_def not_found_def)
qed

theorem delete_removes_product_witness:
  "isInt ''1'' \<and>
   router
     \<lparr>origin = None, http_method = DELETE, http_path = [''1''], params = Map.empty,
      body = Map.empty\<rparr>
     \<lparr>table = [\<lparr>product_id = 1, name = JStr ''Mouse - Testing'', price = JNum 100,
                 availability = True\<rparr>], next_id = 2\<rparr> =
    Some (\<lparr>status = 200, json = DataText ''Product deleted''\<rparr>,
          \<lparr>table = [], next_id = 2\<rparr>)
   \<and> router
     \<lparr>origin = None, http_method = GET, http_path = [''1''], params = Map.empty,
      body = Map.empty\<rparr>
     \<lparr>table = [], next_id = 2\<rparr> =
    Some (\<lparr>status = 404, json = Error ''Product not found''\<rparr>,
          \<lparr>table = [], next_id = 2\<rparr>)"
proof -
  let ?p = "\<lparr>product_id = 1, name = JStr ''Mouse - Testing'', price = JNum 100,
             availability = True\<rparr>"
  let ?st = "\<lparr>table = [?p], next_id = 2\<rparr>"
  have int: "isInt ''1''"
    by (simp add: number_defs)
  have found: "findById ?st (Some ''1'') = Some ?p"
    by (simp add: findById_def number_defs)
  show ?thesis
    using int delete_removes_product
      [where req = "\<lparr>origin = None, http_method = DELETE, http_path = [''1''],
                      params = Map.empty, body = Map.empty\<rparr>", OF _ _ int found]
    by (simp add: destroy_def)
qed

section \<open>The CORS gate\<close>

text \<open>
  C10. A request whose \<open>Origin\<close> header is not equal to \<open>FRONTEND_URL\<close> (a request
  without the header, when the variable is set, is one) has the callback called with
  the error \<open>Error de cors\<close>; the request ends there, before the router, so no request
  of another origin is answered by the routes of \<open>/api/products\<close>.
\<close>

theorem cors_gate:
  assumes "origin req \<noteq> FRONTEND_URL e"
  shows "corsOptions_origin e (origin req) = Failed ''Error de cors''
       \<and> server e req st = CorsError ''Error de cors''
       \<and> server e req st \<noteq> Routed r st'"
  using assms by (simp add: corsOptions_origin_def server_def)

theorem cors_gate_witness:
  "None \<noteq> Some ''http://localhost:5173''
   \<and> corsOptions_origin \<lparr>FRONTEND_URL = Some ''http://localhost:5173''\<rparr> None =
       Failed ''Error de cors''
   \<and> server \<lparr>FRONTEND_URL = Some ''http://localhost:5173''\<rparr>
       \<lparr>origin = None, http_method = GET, http_path = [''api'', ''products''],
        params = Map.empty, body = Map.empty\<rparr>
       \<lparr>table = [], next_id = 1\<rparr> = CorsError ''Error de cors''"
  using cors_gate
    [where e = "\<lparr>FRONTEND_URL = Some ''http://localhost:5173''\<rparr>"
       and req = "\<lparr>origin = None, http_method = GET, http_path = [''api'', ''products''],
                       params = Map.empty, body = Map.empty\<rparr>"
       and st = "\<lparr>table = [], next_id = 1\<rparr>"]
  by simp

text \<open>The gate is open to the one origin: the same request from it is routed.\<close>

lemma cors_gate_open:
  "server \<lparr>FRONTEND_URL = Some ''http://localhost:5173''\<rparr>
     \<lparr>origin = Some ''http://localhost:5173'', http_method = GET,
      http_path = [''api'', ''products''], params = Map.empty, body = Map.empty\<rparr>
     \<lparr>table = [], next_id = 1\<rparr> =
   Routed \<lparr>status = 200, json = DataList []\<rparr> \<lparr>table = [], next_id = 1\<rparr>"
  by (simp add: server_def corsOptions_origin_def lowercase_def handler_defs router_with_def)

end
